theory Spec2Isabelle
  imports Complex_Main "HOL-Library.Sublist" "HOL-Library.Log_Nat"
begin

section \<open>The Netflix player adapter (eris-extension/src/netflix.ts)\<close>

text \<open>
  The adapter is a handful of functions over the page it is injected into: the
  Netflix player API reached through \<^verbatim>\<open>window.netflix\<close>, and the document. Every
  function is modelled as a function of the page; a function that has an effect returns
  the page with the effect appended to a log, and every exception of the source is the
  \<open>Inl\<close> branch of the result.
\<close>

subsection \<open>Values\<close>

text \<open>
  A JavaScript number is an IEEE 754 double. A finite double is given by its value, a
  real number of the form \<open>m * 2 powi e\<close> with \<open>\<bar>m\<bar> < 2 ^ 53\<close> and \<open>- 1074 \<le> e \<le> 971\<close>;
  \<open>fl\<close> rounds a real number to the nearest such value, a tie going to the even
  significand, with no bound on the exponent from above (the operations below turn a
  result beyond the largest double into an infinity).
\<close>

text \<open>\<open>ilog2 x\<close> is the exponent of the binade of a positive \<open>x\<close>:
  \<open>2 powi ilog2 x \<le> x < 2 powi (ilog2 x + 1)\<close>.\<close>

definition ilog2 :: "real \<Rightarrow> int" where
  "ilog2 x = (if 1 \<le> x then bitlen \<lfloor>x\<rfloor> - 1 else - bitlen (\<lceil>1 / x\<rceil> - 1))"

definition round_half_even :: "real \<Rightarrow> int" where
  "round_half_even y =
     (let f = \<lfloor>y\<rfloor>; r = y - of_int f in
      if r < 1 / 2 then f
      else if 1 / 2 < r then f + 1
      else if even f then f else f + 1)"

text \<open>The exponent of the unit in the last place: 53 significant bits, and the
  subnormal numbers below \<open>2 powi (- 1022)\<close>.\<close>

definition ulp_exp :: "real \<Rightarrow> int" where
  "ulp_exp x = max (ilog2 \<bar>x\<bar> - 52) (- 1074)"

definition fl :: "real \<Rightarrow> real" where
  "fl x = (if x = 0 then 0
           else of_int (round_half_even (x / 2 powi ulp_exp x)) * 2 powi ulp_exp x)"

text \<open>The values of the finite doubles.\<close>

definition is_double :: "real \<Rightarrow> bool" where
  "is_double x \<longleftrightarrow> fl x = x \<and> \<bar>x\<bar> < 2 ^ 1024"

text \<open>
  The numbers: \<open>Num x\<close> is the finite double of value \<open>x\<close> (\<open>Num 0\<close> is the positive
  zero), then the negative zero, the two infinities and NaN. The numbers a page holds are
  doubles; where a property depends on it, it assumes \<open>is_double\<close> of the value.
\<close>

datatype number = Num real | NegZero | PosInfinity | NegInfinity | NaN

text \<open>The result of an operation whose exact value is a non-zero \<open>y\<close>: rounded to the
  nearest double, an infinity from \<open>2 ^ 1024 - 2 ^ 970\<close> on (half a unit in the last place
  beyond the largest double), and a zero of the sign of \<open>y\<close> when \<open>y\<close> rounds to zero.\<close>

definition of_exact :: "real \<Rightarrow> number" where
  "of_exact y =
     (if 2 ^ 1024 - 2 ^ 970 \<le> y then PosInfinity
      else if y \<le> - (2 ^ 1024 - 2 ^ 970) then NegInfinity
      else if fl y = 0 \<and> y < 0 then NegZero
      else Num (fl y))"

fun js_neg :: "number \<Rightarrow> number" where
  "js_neg (Num x) = (if x = 0 then NegZero else Num (- x))"
| "js_neg NegZero = Num 0"
| "js_neg PosInfinity = NegInfinity"
| "js_neg NegInfinity = PosInfinity"
| "js_neg NaN = NaN"

text \<open>The operator \<^verbatim>\<open>+\<close> on numbers.\<close>

fun js_add :: "number \<Rightarrow> number \<Rightarrow> number" where
  "js_add NaN b = NaN"
| "js_add a NaN = NaN"
| "js_add PosInfinity NegInfinity = NaN"
| "js_add NegInfinity PosInfinity = NaN"
| "js_add PosInfinity b = PosInfinity"
| "js_add a PosInfinity = PosInfinity"
| "js_add NegInfinity b = NegInfinity"
| "js_add a NegInfinity = NegInfinity"
| "js_add NegZero NegZero = NegZero"
| "js_add NegZero (Num y) = Num y"
| "js_add (Num x) NegZero = Num x"
| "js_add (Num x) (Num y) = (if x + y = 0 then Num 0 else of_exact (x + y))"

text \<open>The operator \<^verbatim>\<open>-\<close> on numbers: \<open>a - b\<close> is \<open>a + (- b)\<close>.\<close>

definition js_sub :: "number \<Rightarrow> number \<Rightarrow> number" where
  "js_sub a b = js_add a (js_neg b)"

fun sign_bit :: "number \<Rightarrow> bool" where
  "sign_bit (Num x) = (x < 0)"
| "sign_bit NegZero = True"
| "sign_bit NegInfinity = True"
| "sign_bit PosInfinity = False"
| "sign_bit NaN = False"

fun is_zero :: "number \<Rightarrow> bool" where
  "is_zero (Num x) = (x = 0)"
| "is_zero NegZero = True"
| "is_zero a = False"

fun is_infinite :: "number \<Rightarrow> bool" where
  "is_infinite PosInfinity = True"
| "is_infinite NegInfinity = True"
| "is_infinite a = False"

fun finite_value :: "number \<Rightarrow> real" where
  "finite_value (Num x) = x"
| "finite_value a = 0"

text \<open>The operator \<^verbatim>\<open>*\<close> on numbers.\<close>

definition js_mul :: "number \<Rightarrow> number \<Rightarrow> number" where
  "js_mul a b =
     (if a = NaN \<or> b = NaN then NaN
      else if is_infinite a \<or> is_infinite b then
        (if is_zero a \<or> is_zero b then NaN
         else if sign_bit a \<noteq> sign_bit b then NegInfinity else PosInfinity)
      else if is_zero a \<or> is_zero b then
        (if sign_bit a \<noteq> sign_bit b then NegZero else Num 0)
      else of_exact (finite_value a * finite_value b))"

text \<open>The operator \<^verbatim>\<open><=\<close> on numbers: false when an operand is NaN, and the two zeros
  are equal.\<close>

fun js_le :: "number \<Rightarrow> number \<Rightarrow> bool" where
  "js_le NaN b = False"
| "js_le a NaN = False"
| "js_le NegInfinity b = True"
| "js_le a PosInfinity = True"
| "js_le PosInfinity b = False"
| "js_le a NegInfinity = False"
| "js_le a b = (finite_value a \<le> finite_value b)"

text \<open>\<^verbatim>\<open>Math.round\<close>: a number that is not finite or is a zero is returned as it is; a
  number from \<open>- 1 / 2\<close> up to but not 0 gives the negative zero; any other gives the nearest
  integer, a tie going up.\<close>

fun Math_round :: "number \<Rightarrow> number" where
  "Math_round (Num x) =
     (if - (1 / 2) \<le> x \<and> x < 0 then NegZero else Num (of_int \<lfloor>x + 1 / 2\<rfloor>))"
| "Math_round a = a"

text \<open>The only exception the adapter can raise by itself: a property read or a
  destructuring of \<^verbatim>\<open>undefined\<close> or \<^verbatim>\<open>null\<close>.\<close>

datatype js_error = TypeError

text \<open>Values of type \<^verbatim>\<open>any\<close>: the video objects of the Netflix metadata API.\<close>

datatype jsval =
    JUndefined
  | JNull
  | JBool bool
  | JNum number
  | JStr string
  | JArr "jsval list"
  | JObj "(string \<times> jsval) list"

fun nullish :: "jsval \<Rightarrow> bool" where
  "nullish JUndefined = True"
| "nullish JNull = True"
| "nullish _ = False"

text \<open>\<open>get v k\<close> is the value of \<^verbatim>\<open>v.k\<close> for a \<open>v\<close> that is neither \<^verbatim>\<open>undefined\<close> nor
  \<^verbatim>\<open>null\<close>: the property of an object, \<^verbatim>\<open>undefined\<close> when it has none of that name.\<close>

fun get :: "jsval \<Rightarrow> string \<Rightarrow> jsval" where
  "get (JObj kvs) k = (case map_of kvs k of None \<Rightarrow> JUndefined | Some v \<Rightarrow> v)"
| "get _ k = JUndefined"

text \<open>\<open>read_prop v k\<close> is the property read \<^verbatim>\<open>v.k\<close>, which throws on \<^verbatim>\<open>undefined\<close> and
  \<^verbatim>\<open>null\<close>.\<close>

definition read_prop :: "jsval \<Rightarrow> string \<Rightarrow> js_error + jsval" where
  "read_prop v k = (if nullish v then Inl TypeError else Inr (get v k))"

text \<open>\<^verbatim>\<open>String.prototype.startsWith\<close>.\<close>

definition startsWith :: "string \<Rightarrow> string \<Rightarrow> bool" where
  "startsWith s p = prefix p s"

subsection \<open>The models (models.ts)\<close>

text \<open>
  \<^verbatim>\<open>PlaybackStatus\<close>, \<^verbatim>\<open>Metadata\<close> and \<^verbatim>\<open>VideoType\<close> are imported from models.ts. Their
  fields are the ones the object literals of netflix.ts set. An optional field that is
  not set is \<open>None\<close>. The season object is given by the list of the properties it has.
\<close>

record Episode =
  seq :: jsval
  title :: jsval
  thumbs :: jsval
  stills :: jsval
  synopsis :: jsval

record Metadata =
  type :: jsval
  title :: jsval
  artwork :: jsval
  boxart :: jsval
  storyart :: jsval
  synopsis :: jsval
  episode :: "Episode option"
  season :: "(string \<times> jsval) list option"

record PlaybackStatus =
  duration :: number
  elapsed :: number
  metadata :: Metadata
  isPlaying :: bool
  volume :: number

subsection \<open>The page\<close>

text \<open>A video player of the Netflix API, by what its getters return.\<close>

record player =
  getCurrentTime :: number
  getDuration :: number
  getMovieId :: number
  getPlaying :: bool
  getVolume :: number

text \<open>The object \<^verbatim>\<open>getVideoMetadataByVideoId\<close> returns, by what its two methods return.\<close>

record video_metadata =
  getVideo :: jsval
  getCurrentVideo :: jsval

text \<open>\<^verbatim>\<open>window.netflix.appContext.state.playerApp.getAPI()\<close>: the session ids and the
  player lookup of its \<^verbatim>\<open>videoPlayer\<close>, and the metadata lookup. A lookup that returns
  \<^verbatim>\<open>undefined\<close> or \<^verbatim>\<open>null\<close> is \<open>None\<close>; the session id \<^verbatim>\<open>undefined\<close> is \<open>None\<close>.\<close>

record api =
  getAllPlayerSessionIds :: "string list"
  getVideoPlayerBySessionId :: "string option \<Rightarrow> player option"
  getVideoMetadataByVideoId :: "number \<Rightarrow> video_metadata option"

text \<open>The calls the adapter makes on a player, and its effects on the page: a call on
  the player object it was given, or a click on the blocked-play button.\<close>

datatype player_call = Seek number | Pause | Play | SetVolume number

datatype effect = Invoke player player_call | Click

text \<open>The page: the Netflix API (\<open>None\<close> when \<^verbatim>\<open>window.netflix\<close> or a link of the chain
  down to \<^verbatim>\<open>getAPI()\<close> is missing), whether
  \<^verbatim>\<open>document.querySelector("[data-uia=\"player-blocked-play\"]")\<close> finds an element, and
  the effects so far.\<close>

record page =
  netflix :: "api option"
  blocked_play :: bool
  effects :: "effect list"

subsection \<open>The adapter\<close>

definition skip :: number where
  "skip = js_mul (Num 30) (Num 1000)"

text \<open>Line 85: the first session id that starts with \<^verbatim>\<open>watch-\<close>; indexing the empty
  array gives \<^verbatim>\<open>undefined\<close>.\<close>

definition sessionId :: "api \<Rightarrow> string option" where
  "sessionId a =
     (case filter (\<lambda>sessionId. startsWith sessionId ''watch-'') (getAllPlayerSessionIds a) of
        [] \<Rightarrow> None
      | s # _ \<Rightarrow> Some s)"

definition player :: "page \<Rightarrow> js_error + player option" where
  "player w =
     (case netflix w of
        None \<Rightarrow> Inl TypeError
      | Some a \<Rightarrow> Inr (getVideoPlayerBySessionId a (sessionId a)))"

text \<open>\<^verbatim>\<open>player().m\<close>: the player, or the TypeError of reading a property of
  \<^verbatim>\<open>undefined\<close>.\<close>

definition the_player :: "page \<Rightarrow> js_error + player" where
  "the_player w =
     (case player w of
        Inl e \<Rightarrow> Inl e
      | Inr None \<Rightarrow> Inl TypeError
      | Inr (Some p) \<Rightarrow> Inr p)"

definition perform :: "page \<Rightarrow> effect \<Rightarrow> page" where
  "perform w e = w\<lparr>effects := effects w @ [e]\<rparr>"

definition "back" :: "page \<Rightarrow> js_error + page" where
  "back w =
     (case the_player w of
        Inl e \<Rightarrow> Inl e
      | Inr p \<Rightarrow>
          (case the_player w of
             Inl e \<Rightarrow> Inl e
           | Inr q \<Rightarrow> Inr (perform w (Invoke p (Seek (js_sub (getCurrentTime q) skip))))))"

definition forward :: "page \<Rightarrow> js_error + page" where
  "forward w =
     (case the_player w of
        Inl e \<Rightarrow> Inl e
      | Inr p \<Rightarrow>
          (case the_player w of
             Inl e \<Rightarrow> Inl e
           | Inr q \<Rightarrow> Inr (perform w (Invoke p (Seek (js_add (getCurrentTime q) skip))))))"

definition pause :: "page \<Rightarrow> js_error + page" where
  "pause w =
     (case the_player w of
        Inl e \<Rightarrow> Inl e
      | Inr p \<Rightarrow> Inr (perform w (Invoke p Pause)))"

definition play :: "page \<Rightarrow> js_error + page" where
  "play w =
     (if blocked_play w then Inr (perform w Click)
      else
        (case the_player w of
           Inl e \<Rightarrow> Inl e
         | Inr p \<Rightarrow> Inr (perform w (Invoke p Play))))"

definition seek :: "page \<Rightarrow> number \<Rightarrow> js_error + page" where
  "seek w position =
     (case the_player w of
        Inl e \<Rightarrow> Inl e
      | Inr p \<Rightarrow> Inr (perform w (Invoke p (Seek position))))"

definition volume :: "page \<Rightarrow> number \<Rightarrow> js_error + page" where
  "volume w vol =
     (case the_player w of
        Inl e \<Rightarrow> Inl e
      | Inr p \<Rightarrow> Inr (perform w (Invoke p (SetVolume vol))))"

definition metadata :: "page \<Rightarrow> number \<Rightarrow> js_error + Metadata" where
  "metadata w videoId =
     (case netflix w of
        None \<Rightarrow> Inl TypeError
      | Some a \<Rightarrow>
     (case getVideoMetadataByVideoId a videoId of
        None \<Rightarrow> Inl TypeError
      | Some m \<Rightarrow>
     (case read_prop (getVideo m) ''_video'' of
        Inl e \<Rightarrow> Inl e
      | Inr video \<Rightarrow>
     (case read_prop video ''type'' of
        Inl e \<Rightarrow> Inl e
      | Inr video_type \<Rightarrow>
          let data = \<lparr>
                type = video_type,
                Metadata.title = get video ''title'',
                artwork = get video ''artwork'',
                boxart = get video ''boxart'',
                storyart = get video ''storyart'',
                Metadata.synopsis = get video ''synopsis'',
                episode = None,
                season = None\<rparr>
          in
            if video_type = JStr ''show'' then
              (case read_prop (getCurrentVideo m) ''_video'' of
                 Inl e \<Rightarrow> Inl e
               | Inr currentVideo \<Rightarrow>
              (case read_prop currentVideo ''seq'' of
                 Inl e \<Rightarrow> Inl e
               | Inr current_seq \<Rightarrow>
                   Inr (data\<lparr>
                     episode := Some \<lparr>
                       seq = current_seq,
                       Episode.title = get currentVideo ''title'',
                       thumbs = get currentVideo ''thumbs'',
                       stills = get currentVideo ''stills'',
                       Episode.synopsis = get currentVideo ''synopsis''\<rparr>,
                     season := Some []\<rparr>)))
            else Inr data))))"

definition status :: "page \<Rightarrow> js_error + PlaybackStatus" where
  "status w =
     (case the_player w of
        Inl e \<Rightarrow> Inl e
      | Inr p \<Rightarrow>
          (case Spec2Isabelle.metadata w (getMovieId p) of
             Inl e \<Rightarrow> Inl e
           | Inr md \<Rightarrow>
               Inr \<lparr>
                 duration = getDuration p,
                 elapsed = getCurrentTime p,
                 PlaybackStatus.metadata = md,
                 isPlaying = getPlaying p,
                 PlaybackStatus.volume = Math_round (js_mul (getVolume p) (Num 100))\<rparr>))"

subsection \<open>Example pages\<close>

definition example_player :: player where
  "example_player = \<lparr>getCurrentTime = Num 12000, getDuration = Num 3600000,
     getMovieId = Num 70143836, getPlaying = True, getVolume = Num (fl 0.8732)\<rparr>"

definition overrun_player :: player where
  "overrun_player = \<lparr>getCurrentTime = Num 5000, getDuration = Num 3000,
     getMovieId = Num 60023642, getPlaying = False, getVolume = Num 1\<rparr>"

definition inexact_player :: player where
  "inexact_player = \<lparr>getCurrentTime = Num (fl 0.1), getDuration = Num 3600000,
     getMovieId = Num 60023642, getPlaying = True, getVolume = Num (fl 0.615)\<rparr>"

definition example_show :: video_metadata where
  "example_show = \<lparr>
     getVideo = JObj [(''_video'', JObj [(''type'', JStr ''show''), (''title'', JStr ''Dark''),
       (''seasons'', JArr [JObj [(''seq'', JNum (Num 1)), (''title'', JStr ''Season 1'')]])])],
     getCurrentVideo = JObj [(''_video'', JObj [(''seq'', JNum (Num 3)), (''title'', JStr ''Past and Present'')])]\<rparr>"

definition example_movie :: video_metadata where
  "example_movie = \<lparr>
     getVideo = JObj [(''_video'', JObj [(''type'', JStr ''movie''), (''title'', JStr ''Heat'')])],
     getCurrentVideo = JObj [(''_video'', JObj [(''title'', JStr ''Heat'')])]\<rparr>"

definition example_api :: "string list \<Rightarrow> player \<Rightarrow> api" where
  "example_api ids p = \<lparr>
     getAllPlayerSessionIds = ids,
     getVideoPlayerBySessionId = (\<lambda>s. if s = Some ''watch-7'' then Some p else None),
     getVideoMetadataByVideoId =
       (\<lambda>n. if n = Num 70143836 then Some example_show
            else if n = Num 60023642 then Some example_movie else None)\<rparr>"

definition example_page :: page where
  "example_page = \<lparr>
     netflix = Some (example_api [''motion-billboard-1'', ''watch-7'', ''watch-9''] example_player),
     blocked_play = False, effects = []\<rparr>"

definition overrun_page :: page where
  "overrun_page = \<lparr>netflix = Some (example_api [''watch-7''] overrun_player),
     blocked_play = False, effects = []\<rparr>"

definition inexact_page :: page where
  "inexact_page = \<lparr>netflix = Some (example_api [''watch-7''] inexact_player),
     blocked_play = False, effects = []\<rparr>"

definition idle_page :: page where
  "idle_page = \<lparr>netflix = Some (example_api [''motion-billboard-1''] example_player),
     blocked_play = False, effects = []\<rparr>"

definition blocked_page :: page where
  "blocked_page = \<lparr>netflix = Some (example_api [''motion-billboard-1''] example_player),
     blocked_play = True, effects = []\<rparr>"

text \<open>The bounds the data model of the specification puts on a status, read with the
  comparison \<^verbatim>\<open><=\<close> of numbers.\<close>

definition spec_bounds :: "PlaybackStatus \<Rightarrow> bool" where
  "spec_bounds s =
     (js_le (Num 0) (duration s) \<and> js_le (Num 0) (elapsed s) \<and> js_le (elapsed s) (duration s))"

section \<open>Properties\<close>

subsection \<open>Rounding to a double\<close>

lemma ilog2_bounds:
  assumes "0 < x"
  shows "2 powi ilog2 x \<le> x" and "x < 2 powi (ilog2 x + 1)"
proof -
  have "2 powi ilog2 x \<le> x \<and> x < 2 powi (ilog2 x + 1)"
  proof (cases "1 \<le> x")
    case True
    define n where "n = \<lfloor>x\<rfloor>"
    have n: "0 < n" using True by (simp add: n_def)
    have b: "1 \<le> bitlen n" using n by (simp add: bitlen_alt_def)
    from bitlen_bounds [OF n] have lo: "2 ^ nat (bitlen n - 1) \<le> n" and hi: "n < 2 ^ nat (bitlen n)"
      by simp_all
    have "(2::real) powi (bitlen n - 1) = 2 ^ nat (bitlen n - 1)"
      using b by (simp add: power_int_def)
    also have "\<dots> = real_of_int (2 ^ nat (bitlen n - 1))" by simp
    also have "\<dots> \<le> real_of_int n" using lo by (simp only: of_int_le_iff)
    also have "\<dots> \<le> x" by (simp add: n_def)
    finally have 1: "2 powi (bitlen n - 1) \<le> x" .
    have "n + 1 \<le> 2 ^ nat (bitlen n)" using hi by simp
    then have "real_of_int (n + 1) \<le> real_of_int (2 ^ nat (bitlen n))"
      by (simp only: of_int_le_iff)
    moreover have "x < real_of_int (n + 1)" by (simp add: n_def)
    ultimately have "x < real_of_int (2 ^ nat (bitlen n))" by linarith
    also have "\<dots> = 2 powi (bitlen n)"
      using b by (simp add: power_int_def)
    finally have 2: "x < 2 powi (bitlen n - 1 + 1)" by simp
    from True have "ilog2 x = bitlen n - 1" by (simp add: ilog2_def n_def)
    with 1 2 show ?thesis by simp
  next
    case False
    define y where "y = 1 / x"
    define n where "n = \<lceil>y\<rceil> - 1"
    have y: "1 < y" using False assms by (simp add: y_def)
    have n: "0 < n" using y by (simp add: n_def less_ceiling_iff)
    have ny: "real_of_int n < y" by (simp add: n_def) linarith
    have yn: "y \<le> real_of_int (n + 1)" by (simp add: n_def)
    have b: "1 \<le> bitlen n" using n by (simp add: bitlen_alt_def)
    from bitlen_bounds [OF n] have lo: "2 ^ nat (bitlen n - 1) \<le> n" and hi: "n < 2 ^ nat (bitlen n)"
      by simp_all
    have "n + 1 \<le> 2 ^ nat (bitlen n)" using hi by simp
    then have "real_of_int (n + 1) \<le> real_of_int (2 ^ nat (bitlen n))"
      by (simp only: of_int_le_iff)
    with yn have "y \<le> 2 ^ nat (bitlen n)" by simp
    then have "1 / 2 ^ nat (bitlen n) \<le> x"
      using assms by (simp add: y_def field_simps)
    moreover have "(2::real) powi (- bitlen n) = 1 / 2 ^ nat (bitlen n)"
      using b by (simp add: power_int_def field_simps)
    ultimately have 1: "2 powi (- bitlen n) \<le> x" by simp
    have "real_of_int (2 ^ nat (bitlen n - 1)) \<le> real_of_int n"
      using lo by (simp only: of_int_le_iff)
    then have "(2::real) ^ nat (bitlen n - 1) \<le> real_of_int n" by simp
    with ny have "2 ^ nat (bitlen n - 1) < y" by linarith
    then have "x < 1 / 2 ^ nat (bitlen n - 1)"
      using assms by (simp add: y_def field_simps)
    moreover have "(2::real) powi (- bitlen n + 1) = 1 / 2 ^ nat (bitlen n - 1)"
    proof -
      have "- bitlen n + 1 = - (bitlen n - 1)" by simp
      then have "(2::real) powi (- bitlen n + 1) = 2 powi (- (bitlen n - 1))" by simp
      also have "\<dots> = 1 / 2 powi (bitlen n - 1)" by (rule power_int_minus_divide)
      also have "\<dots> = 1 / 2 ^ nat (bitlen n - 1)" using b by (simp add: power_int_def)
      finally show ?thesis .
    qed
    ultimately have 2: "x < 2 powi (- bitlen n + 1)" by simp
    from False have "ilog2 x = - bitlen n" by (simp add: ilog2_def n_def y_def)
    with 1 2 show ?thesis by simp
  qed
  then show "2 powi ilog2 x \<le> x" and "x < 2 powi (ilog2 x + 1)" by simp_all
qed


lemma round_half_even_ceiling: "round_half_even y \<le> \<lceil>y\<rceil>"
proof -
  have "\<lfloor>y\<rfloor> + 1 \<le> \<lceil>y\<rceil>" if "y - of_int \<lfloor>y\<rfloor> \<noteq> 0"
    using that by (metis ceiling_altdef diff_self floor_le_ceiling of_int_floor_cancel order_refl)
  moreover have "\<lfloor>y\<rfloor> \<le> \<lceil>y\<rceil>" by (rule floor_le_ceiling)
  ultimately show ?thesis
    by (auto simp add: round_half_even_def Let_def)
qed

lemma ulp_exp_ge: "- 1074 \<le> ulp_exp x"
  by (simp add: ulp_exp_def)

lemma ulp_pos: "0 < (2::real) powi ulp_exp x"
  by simp

lemma fl_eq:
  "x \<noteq> 0 \<Longrightarrow> fl x = of_int (round_half_even (x / 2 powi ulp_exp x)) * 2 powi ulp_exp x"
  by (simp add: fl_def)


lemma fl_le_multiple:
  assumes "x \<noteq> 0" and "x \<le> of_int j * 2 powi ulp_exp x"
  shows "fl x \<le> of_int j * 2 powi ulp_exp x"
proof -
  have "x / 2 powi ulp_exp x \<le> of_int j"
    using assms(2) by (simp add: field_simps)
  then have "\<lceil>x / 2 powi ulp_exp x\<rceil> \<le> j"
    by (simp add: ceiling_le_iff)
  then have "round_half_even (x / 2 powi ulp_exp x) \<le> j"
    using round_half_even_ceiling [of "x / 2 powi ulp_exp x"] by linarith
  then have "real_of_int (round_half_even (x / 2 powi ulp_exp x)) \<le> real_of_int j"
    by (simp only: of_int_le_iff)
  then have "real_of_int (round_half_even (x / 2 powi ulp_exp x)) * 2 powi ulp_exp x
      \<le> real_of_int j * 2 powi ulp_exp x"
    by (rule mult_right_mono) simp
  then show ?thesis
    using assms(1) by (simp add: fl_eq)
qed

lemma ilog2_less:
  assumes "0 < x" and "x < 2 powi n"
  shows "ilog2 x < n"
proof (rule ccontr)
  assume "\<not> ilog2 x < n"
  then have "n \<le> ilog2 x" by simp
  then have "(2::real) powi n \<le> 2 powi ilog2 x"
    by (simp add: power_int_increasing)
  also have "\<dots> \<le> x" using assms(1) by (rule ilog2_bounds)
  finally show False using assms(2) by simp
qed


lemma fl_negative:
  assumes "x \<le> - (2 powi (- 1074))"
  shows "fl x \<le> - (2 powi (- 1074))"
proof -
  have g: "0 < (2::real) powi (- 1074)" by simp
  have neg: "x < 0" using assms g by linarith
  then have pos: "0 < \<bar>x\<bar>" by simp
  have u: "2 powi ulp_exp x \<le> \<bar>x\<bar>"
  proof (cases "ulp_exp x = - 1074")
    case True
    then show ?thesis using assms neg by simp
  next
    case False
    then have "ulp_exp x = ilog2 \<bar>x\<bar> - 52"
      by (simp add: ulp_exp_def max_def split: if_splits)
    then have "(2::real) powi ulp_exp x \<le> 2 powi ilog2 \<bar>x\<bar>"
      by (simp add: power_int_increasing)
    also have "\<dots> \<le> \<bar>x\<bar>" using pos by (rule ilog2_bounds)
    finally show ?thesis .
  qed
  then have "x \<le> real_of_int (- 1) * 2 powi ulp_exp x"
    using neg by simp
  with neg have "fl x \<le> real_of_int (- 1) * 2 powi ulp_exp x"
    by (intro fl_le_multiple) simp_all
  moreover have "(2::real) powi (- 1074) \<le> 2 powi ulp_exp x"
    by (rule power_int_increasing) (simp_all add: ulp_exp_ge)
  ultimately show ?thesis by simp
qed

lemma double_grid:
  assumes "is_double t"
  shows "\<exists>k::int. t = of_int k * 2 powi (- 1074)"
proof (cases "t = 0")
  case True
  then have "t = of_int 0 * 2 powi (- 1074)" by simp
  then show ?thesis by blast
next
  case False
  define r where "r = round_half_even (t / 2 powi ulp_exp t)"
  have t: "t = of_int r * 2 powi ulp_exp t"
    using assms False by (simp add: is_double_def fl_eq r_def)
  have "0 \<le> ulp_exp t + 1074" using ulp_exp_ge [of t] by simp
  then have "(2::real) powi (ulp_exp t + 1074) = 2 ^ nat (ulp_exp t + 1074)"
    by (simp add: power_int_def)
  moreover have "(2::real) powi ulp_exp t = 2 powi (ulp_exp t + 1074) * 2 powi (- 1074)"
    using power_int_add [of "2::real" "ulp_exp t + 1074" "- 1074"] by simp
  ultimately have "(2::real) powi ulp_exp t = 2 ^ nat (ulp_exp t + 1074) * 2 powi (- 1074)"
    by simp
  with t have "t = of_int (r * 2 ^ nat (ulp_exp t + 1074)) * 2 powi (- 1074)"
    by (simp add: mult.assoc)
  then show ?thesis by blast
qed

lemma double_below:
  assumes "is_double t" and "is_double c" and "t < c"
  shows "t - c \<le> - (2 powi (- 1074))"
proof -
  obtain k :: int where k: "t = of_int k * 2 powi (- 1074)"
    using assms(1) double_grid by blast
  obtain l :: int where l: "c = of_int l * 2 powi (- 1074)"
    using assms(2) double_grid by blast
  have g: "0 < (2::real) powi (- 1074)" by simp
  have "real_of_int k < real_of_int l"
    using assms(3) g unfolding k l by (simp only: mult_less_cancel_right_pos)
  then have "k + 1 \<le> l" by simp
  then have "real_of_int (k + 1) \<le> real_of_int l" by (simp only: of_int_le_iff)
  then have "real_of_int (k + 1) * 2 powi (- 1074) \<le> real_of_int l * 2 powi (- 1074)"
    by (rule mult_right_mono) simp
  then show ?thesis
    unfolding k l by (simp add: algebra_simps)
qed

lemma double_bound:
  assumes "is_double t"
  shows "\<bar>t\<bar> \<le> 2 ^ 1024 - 2 ^ 971"
proof (cases "t = 0")
  case True
  then show ?thesis by simp
next
  case False
  then have pos: "0 < \<bar>t\<bar>" by simp
  define r where "r = round_half_even (t / 2 powi ulp_exp t)"
  have t: "t = of_int r * 2 powi ulp_exp t"
    using assms False by (simp add: is_double_def fl_eq r_def)
  have "\<bar>t\<bar> < 2 powi 1024"
    using assms by (simp add: is_double_def)
  with pos have l: "ilog2 \<bar>t\<bar> < 1024" by (rule ilog2_less)
  then have e: "ulp_exp t \<le> 971" by (simp add: ulp_exp_def)
  have "ilog2 \<bar>t\<bar> + 1 \<le> ulp_exp t + 53" by (simp add: ulp_exp_def)
  then have "(2::real) powi (ilog2 \<bar>t\<bar> + 1) \<le> 2 powi (ulp_exp t + 53)"
    by (simp add: power_int_increasing)
  with ilog2_bounds(2) [OF pos] have "\<bar>t\<bar> < 2 powi (ulp_exp t + 53)" by linarith
  also have "\<dots> = 2 ^ 53 * 2 powi ulp_exp t"
    by (simp add: power_int_add)
  finally have "\<bar>real_of_int r\<bar> * 2 powi ulp_exp t < 2 ^ 53 * 2 powi ulp_exp t"
    by (subst (asm) t) (simp add: abs_mult)
  then have "\<bar>real_of_int r\<bar> < 2 ^ 53"
    by (simp only: mult_less_cancel_right_pos ulp_pos)
  then have "\<bar>r\<bar> < 2 ^ 53"
    by (metis of_int_abs of_int_less_iff of_int_numeral of_int_power)
  then have "\<bar>r\<bar> \<le> 2 ^ 53 - 1" by simp
  then have "real_of_int \<bar>r\<bar> \<le> real_of_int (2 ^ 53 - 1)" by (simp only: of_int_le_iff)
  then have r: "\<bar>real_of_int r\<bar> \<le> 2 ^ 53 - 1" by simp
  have u: "(2::real) powi ulp_exp t \<le> 2 powi 971"
    by (rule power_int_increasing) (use e in simp_all)
  have "\<bar>t\<bar> = \<bar>real_of_int r\<bar> * 2 powi ulp_exp t"
    by (subst t) (simp add: abs_mult)
  also have "\<dots> \<le> (2 ^ 53 - 1) * 2 powi 971"
    using r u by (intro mult_mono) simp_all
  also have "\<dots> = 2 ^ 1024 - 2 ^ 971" by simp
  finally show ?thesis .
qed

lemma of_exact_double:
  assumes "is_double y"
  shows "of_exact y = Num y"
proof -
  have "\<bar>y\<bar> \<le> 2 ^ 1024 - 2 ^ 971"
    using assms by (rule double_bound)
  moreover have "(2::real) ^ 1024 - 2 ^ 971 < 2 ^ 1024 - 2 ^ 970" by simp
  ultimately have "\<not> 2 ^ 1024 - 2 ^ 970 \<le> y" and "\<not> y \<le> - (2 ^ 1024 - 2 ^ 970)"
    by linarith+
  moreover have "fl y = y" using assms by (simp add: is_double_def)
  ultimately show ?thesis
    by (auto simp add: of_exact_def)
qed

subsection \<open>Auxiliary facts\<close>

lemmas example_defs =
  example_player_def overrun_player_def example_show_def example_movie_def example_api_def
  example_page_def overrun_page_def idle_page_def blocked_page_def inexact_player_def
  inexact_page_def

lemma the_player_found:
  "netflix w = Some a \<Longrightarrow> getVideoPlayerBySessionId a (sessionId a) = Some p \<Longrightarrow>
   the_player w = Inr p"
  by (simp add: the_player_def player_def)

lemma the_player_missing:
  "netflix w = Some a \<Longrightarrow> getVideoPlayerBySessionId a (sessionId a) = None \<Longrightarrow>
   the_player w = Inl TypeError"
  by (simp add: the_player_def player_def)

lemma status_found:
  "the_player w = Inr p \<Longrightarrow> Spec2Isabelle.metadata w (getMovieId p) = Inr md \<Longrightarrow>
   status w = Inr \<lparr>duration = getDuration p, elapsed = getCurrentTime p,
     PlaybackStatus.metadata = md, isPlaying = getPlaying p,
     PlaybackStatus.volume = Math_round (js_mul (getVolume p) (Num 100))\<rparr>"
  by (simp add: status_def)






lemma fl_0_1: "fl 0.1 = 3602879701896397 / 2 ^ 55"
  by code_simp

lemma fl_30000: "fl 30000 = 30000"
  by code_simp



lemma skip_eq: "skip = Num 30000"
proof -
  have "of_exact 30000 = Num 30000"
    by (simp add: of_exact_def fl_30000)
  then show ?thesis
    by (simp add: skip_def js_mul_def)
qed

lemma double_30000: "is_double 30000"
  by (simp add: is_double_def fl_30000)

lemma double_12000: "is_double 12000"
proof -
  have "fl 12000 = 12000"
    by code_simp
  then show ?thesis
    by (simp add: is_double_def)
qed


lemma js_sub_30000: "js_sub (Num t) (Num 30000) = (if t = 30000 then Num 0 else of_exact (t - 30000))"
  by (simp add: js_sub_def)

lemma js_add_30000: "js_add (Num t) (Num 30000) = (if t = - 30000 then Num 0 else of_exact (t + 30000))"
  by (auto simp add: add_eq_0_iff)

lemma example_back: "js_sub (Num 12000) (Num 30000) = Num (- 18000)"
proof -
  have "fl (- 18000) = - 18000"
    by code_simp
  then have "of_exact (- 18000) = Num (- 18000)"
    by (simp add: of_exact_def)
  then show ?thesis
    by (simp add: js_sub_30000)
qed

lemma example_forward: "js_add (Num 12000) (Num 30000) = Num 42000"
proof -
  have "fl 42000 = 42000"
    by code_simp
  then have "of_exact 42000 = Num 42000"
    by (simp add: of_exact_def)
  then show ?thesis
    by (simp add: js_add_30000)
qed

lemma inexact_forward: "js_add (Num (fl 0.1)) (Num 30000) = Num (4123182348055347 / 2 ^ 37)"
proof -
  have "fl (3602879701896397 / 2 ^ 55 + 30000) = 4123182348055347 / 2 ^ 37"
    by code_simp
  then have "of_exact (3602879701896397 / 2 ^ 55 + 30000) = Num (4123182348055347 / 2 ^ 37)"
    by (simp add: of_exact_def)
  then have "js_add (Num (3602879701896397 / 2 ^ 55)) (Num 30000) = Num (4123182348055347 / 2 ^ 37)"
    by (simp add: js_add_30000)
  then show ?thesis
    by (simp only: fl_0_1)
qed

lemma js_sub_30000_exact:
  assumes "is_double (t - 30000)"
  shows "js_sub (Num t) (Num 30000) = Num (t - 30000)"
  using assms by (simp add: js_sub_30000 of_exact_double)

lemma js_add_30000_exact:
  assumes "is_double (t + 30000)"
  shows "js_add (Num t) (Num 30000) = Num (t + 30000)"
  using assms by (simp add: js_add_30000 of_exact_double)

lemma js_sub_30000_negative:
  assumes "is_double t" and "t < 30000"
  shows "\<exists>position. position < 0 \<and> js_sub (Num t) (Num 30000) = Num position"
proof -
  let ?y = "t - 30000"
  have g: "0 < (2::real) powi (- 1074)" by simp
  have y: "?y \<le> - (2 powi (- 1074))"
    using assms(1) double_30000 assms(2) by (rule double_below)
  then have f: "fl ?y \<le> - (2 powi (- 1074))" by (rule fl_negative)
  have "\<bar>t\<bar> \<le> 2 ^ 1024 - 2 ^ 971" using assms(1) by (rule double_bound)
  moreover have "(2::real) ^ 1024 - 2 ^ 971 + 30000 < 2 ^ 1024 - 2 ^ 970" by simp
  ultimately have "\<not> ?y \<le> - (2 ^ 1024 - 2 ^ 970)" by linarith
  moreover have "\<not> 2 ^ 1024 - 2 ^ 970 \<le> ?y" using assms(2) by simp
  moreover have "fl ?y \<noteq> 0" using f g by linarith
  ultimately have "of_exact ?y = Num (fl ?y)" by (simp add: of_exact_def)
  then have "js_sub (Num t) (Num 30000) = Num (fl ?y)"
    using assms(2) by (simp add: js_sub_30000)
  moreover have "fl ?y < 0" using f g by linarith
  ultimately show ?thesis by blast
qed

lemma inexact_netflix:
  "netflix inexact_page = Some (example_api [''watch-7''] inexact_player)"
  by (simp add: inexact_page_def)

lemma inexact_player_lookup:
  "getVideoPlayerBySessionId (example_api [''watch-7''] inexact_player)
     (sessionId (example_api [''watch-7''] inexact_player)) = Some inexact_player"
  by (simp add: sessionId_def example_api_def startsWith_def)


lemma inexact_page_perform:
  "inexact_page\<lparr>effects := effects inexact_page @ [e]\<rparr> = inexact_page\<lparr>effects := [e]\<rparr>"
  by (simp add: inexact_page_def)

lemma example_sessionId:
  "sessionId (example_api [''motion-billboard-1'', ''watch-7'', ''watch-9''] p) = Some ''watch-7''"
  by (simp add: sessionId_def example_api_def startsWith_def)

lemma example_netflix:
  "netflix example_page =
     Some (example_api [''motion-billboard-1'', ''watch-7'', ''watch-9''] example_player)"
  by (simp add: example_page_def)

lemma example_lookup:
  "getVideoPlayerBySessionId (example_api ids p) (Some ''watch-7'') = Some p"
  by (simp add: example_api_def)

lemma example_metadata:
  "Spec2Isabelle.metadata example_page (getMovieId example_player) = Inr \<lparr>
     type = JStr ''show'', Metadata.title = JStr ''Dark'', artwork = JUndefined,
     boxart = JUndefined, storyart = JUndefined, Metadata.synopsis = JUndefined,
     episode = Some \<lparr>seq = JNum (Num 3), Episode.title = JStr ''Past and Present'',
       thumbs = JUndefined, stills = JUndefined, Episode.synopsis = JUndefined\<rparr>,
     season = Some []\<rparr>"
  by (simp add: metadata_def example_defs read_prop_def)

lemma status_fields:
  assumes "netflix w = Some a"
    and "getVideoPlayerBySessionId a (sessionId a) = Some p"
    and "Spec2Isabelle.metadata w (getMovieId p) = Inr md"
  obtains s where "status w = Inr s"
    and "duration s = getDuration p"
    and "elapsed s = getCurrentTime p"
    and "PlaybackStatus.metadata s = md"
    and "isPlaying s = getPlaying p"
    and "PlaybackStatus.volume s = Math_round (js_mul (getVolume p) (Num 100))"
proof -
  have "the_player w = Inr p"
    using assms(1,2) by (rule the_player_found)
  then have "status w = Inr \<lparr>duration = getDuration p, elapsed = getCurrentTime p,
     PlaybackStatus.metadata = md, isPlaying = getPlaying p,
     PlaybackStatus.volume = Math_round (js_mul (getVolume p) (Num 100))\<rparr>"
    using assms(3) by (rule status_found)
  then show ?thesis
    by (rule that) simp_all
qed

lemma example_player_lookup:
  "getVideoPlayerBySessionId
     (example_api [''motion-billboard-1'', ''watch-7'', ''watch-9''] example_player)
     (sessionId (example_api [''motion-billboard-1'', ''watch-7'', ''watch-9''] example_player))
   = Some example_player"
  by (simp add: example_sessionId example_lookup)

lemma overrun_netflix:
  "netflix overrun_page = Some (example_api [''watch-7''] overrun_player)"
  by (simp add: overrun_page_def)

lemma overrun_player_lookup:
  "getVideoPlayerBySessionId (example_api [''watch-7''] overrun_player)
     (sessionId (example_api [''watch-7''] overrun_player)) = Some overrun_player"
  by (simp add: sessionId_def example_api_def startsWith_def)

lemma overrun_metadata:
  "Spec2Isabelle.metadata overrun_page (getMovieId overrun_player) = Inr \<lparr>
     type = JStr ''movie'', Metadata.title = JStr ''Heat'', artwork = JUndefined,
     boxart = JUndefined, storyart = JUndefined, Metadata.synopsis = JUndefined,
     episode = None, season = None\<rparr>"
  by (simp add: metadata_def example_defs read_prop_def)

lemma idle_netflix:
  "netflix idle_page = Some (example_api [''motion-billboard-1''] example_player)"
  by (simp add: idle_page_def)

lemma idle_sessionId: "sessionId (example_api [''motion-billboard-1''] p) = None"
  by (simp add: sessionId_def example_api_def startsWith_def)

lemma idle_lookup: "getVideoPlayerBySessionId (example_api ids p) None = None"
  by (simp add: example_api_def)

lemma get_not_nullish: "get v k = JStr x \<Longrightarrow> \<not> nullish v"
  by (cases v) simp_all

lemma metadata_show:
  assumes "netflix w = Some a"
    and "getVideoMetadataByVideoId a videoId = Some m"
    and "read_prop (getVideo m) ''_video'' = Inr video"
    and "get video ''type'' = JStr ''show''"
    and "read_prop (getCurrentVideo m) ''_video'' = Inr currentVideo"
    and "\<not> nullish currentVideo"
  shows "Spec2Isabelle.metadata w videoId = Inr \<lparr>
     type = JStr ''show'',
     Metadata.title = get video ''title'',
     artwork = get video ''artwork'',
     boxart = get video ''boxart'',
     storyart = get video ''storyart'',
     Metadata.synopsis = get video ''synopsis'',
     episode = Some \<lparr>
       seq = get currentVideo ''seq'',
       Episode.title = get currentVideo ''title'',
       thumbs = get currentVideo ''thumbs'',
       stills = get currentVideo ''stills'',
       Episode.synopsis = get currentVideo ''synopsis''\<rparr>,
     season = Some []\<rparr>"
proof -
  have "\<not> nullish video"
    using assms(4) by (rule get_not_nullish)
  then have "read_prop video ''type'' = Inr (JStr ''show'')"
    using assms(4) by (simp add: read_prop_def)
  moreover have "read_prop currentVideo ''seq'' = Inr (get currentVideo ''seq'')"
    using assms(6) by (simp add: read_prop_def)
  ultimately show ?thesis
    using assms(1,2,3,5) by (simp add: metadata_def)
qed

lemma metadata_other:
  assumes "netflix w = Some a"
    and "getVideoMetadataByVideoId a videoId = Some m"
    and "read_prop (getVideo m) ''_video'' = Inr video"
    and "get video ''type'' = JStr t"
    and "t \<noteq> ''show''"
  shows "Spec2Isabelle.metadata w videoId = Inr \<lparr>
     type = JStr t,
     Metadata.title = get video ''title'',
     artwork = get video ''artwork'',
     boxart = get video ''boxart'',
     storyart = get video ''storyart'',
     Metadata.synopsis = get video ''synopsis'',
     episode = None,
     season = None\<rparr>"
proof -
  have "\<not> nullish video"
    using assms(4) by (rule get_not_nullish)
  then have "read_prop video ''type'' = Inr (JStr t)"
    using assms(4) by (simp add: read_prop_def)
  then show ?thesis
    using assms(1,2,3,5) by (simp add: metadata_def)
qed

lemma example_show_video:
  "read_prop (getVideo example_show) ''_video'' =
     Inr (JObj [(''type'', JStr ''show''), (''title'', JStr ''Dark''),
       (''seasons'', JArr [JObj [(''seq'', JNum (Num 1)), (''title'', JStr ''Season 1'')]])])"
  by (simp add: example_show_def read_prop_def)

lemma example_show_current:
  "read_prop (getCurrentVideo example_show) ''_video'' =
     Inr (JObj [(''seq'', JNum (Num 3)), (''title'', JStr ''Past and Present'')])"
  by (simp add: example_show_def read_prop_def)

lemma example_movie_video:
  "read_prop (getVideo example_movie) ''_video'' =
     Inr (JObj [(''type'', JStr ''movie''), (''title'', JStr ''Heat'')])"
  by (simp add: example_movie_def read_prop_def)

lemma example_show_lookup:
  "getVideoMetadataByVideoId (example_api ids p) (Num 70143836) = Some example_show"
  by (simp add: example_api_def)

lemma example_movie_lookup:
  "getVideoMetadataByVideoId (example_api ids p) (Num 60023642) = Some example_movie"
  by (simp add: example_api_def)

lemma sessionId_Some_iff:
  "sessionId a = Some s \<longleftrightarrow>
     (\<exists>pre post. getAllPlayerSessionIds a = pre @ s # post \<and> startsWith s ''watch-''
        \<and> (\<forall>t\<in>set pre. \<not> startsWith t ''watch-''))"
proof
  assume "sessionId a = Some s"
  then obtain rest where
    "filter (\<lambda>sessionId. startsWith sessionId ''watch-'') (getAllPlayerSessionIds a) = s # rest"
    by (auto simp add: sessionId_def split: list.splits)
  then show "\<exists>pre post. getAllPlayerSessionIds a = pre @ s # post \<and> startsWith s ''watch-''
        \<and> (\<forall>t\<in>set pre. \<not> startsWith t ''watch-'')"
    by (auto simp add: filter_eq_Cons_iff)
next
  assume "\<exists>pre post. getAllPlayerSessionIds a = pre @ s # post \<and> startsWith s ''watch-''
        \<and> (\<forall>t\<in>set pre. \<not> startsWith t ''watch-'')"
  then obtain pre post where ids: "getAllPlayerSessionIds a = pre @ s # post"
    and s: "startsWith s ''watch-''" and pre: "\<forall>t\<in>set pre. \<not> startsWith t ''watch-''"
    by blast
  from pre have "filter (\<lambda>sessionId. startsWith sessionId ''watch-'') pre = []"
    by (simp add: filter_empty_conv)
  then show "sessionId a = Some s"
    using ids s by (simp add: sessionId_def)
qed

lemma sessionId_None_iff:
  "sessionId a = None \<longleftrightarrow> (\<forall>t\<in>set (getAllPlayerSessionIds a). \<not> startsWith t ''watch-'')"
proof -
  have "sessionId a = None \<longleftrightarrow>
      filter (\<lambda>sessionId. startsWith sessionId ''watch-'') (getAllPlayerSessionIds a) = []"
    by (simp add: sessionId_def split: list.splits)
  then show ?thesis
    by (simp add: filter_empty_conv)
qed

lemma example_page_perform:
  "example_page\<lparr>effects := effects example_page @ [e]\<rparr> = example_page\<lparr>effects := [e]\<rparr>"
  by (simp add: example_page_def)

subsection \<open>The status\<close>



text \<open>
  C2. Whenever the player and the metadata of its movie are found, \<open>status\<close> returns a
  status whose elapsed time is exactly the player's \<^verbatim>\<open>getCurrentTime()\<close> and whose duration
  is exactly the player's \<^verbatim>\<open>getDuration()\<close>, whatever these values are.
\<close>

theorem status_passes_times_through:
  assumes "netflix w = Some a"
    and "getVideoPlayerBySessionId a (sessionId a) = Some p"
    and "Spec2Isabelle.metadata w (getMovieId p) = Inr md"
  shows "\<exists>s. status w = Inr s \<and> elapsed s = getCurrentTime p \<and> duration s = getDuration p"
proof -
  obtain s where "status w = Inr s" and "duration s = getDuration p"
    and "elapsed s = getCurrentTime p"
    using assms by (rule status_fields)
  then show ?thesis by blast
qed

theorem status_passes_times_through_witness:
  "map_sum id elapsed (status example_page) = Inr (Num 12000)
   \<and> map_sum id duration (status example_page) = Inr (Num 3600000)"
  using status_passes_times_through [OF example_netflix example_player_lookup example_metadata]
  by (auto simp add: example_player_def)

text \<open>
  C3, as amended. \<open>status\<close> enforces no bounds: a status it returns satisfies the bounds of
  the data model (duration at least 0, elapsed between 0 and the duration) exactly when
  the player's own \<^verbatim>\<open>getDuration()\<close> and \<^verbatim>\<open>getCurrentTime()\<close> do.
\<close>

theorem status_bounds_from_player:
  assumes "netflix w = Some a"
    and "getVideoPlayerBySessionId a (sessionId a) = Some p"
    and "status w = Inr s"
  shows "spec_bounds s \<longleftrightarrow>
    js_le (Num 0) (getDuration p) \<and> js_le (Num 0) (getCurrentTime p)
    \<and> js_le (getCurrentTime p) (getDuration p)"
proof -
  have "the_player w = Inr p"
    using assms(1,2) by (rule the_player_found)
  with assms(3) have "duration s = getDuration p \<and> elapsed s = getCurrentTime p"
    by (auto simp add: status_def split: sum.splits)
  then show ?thesis
    by (simp add: spec_bounds_def)
qed

theorem status_bounds_from_player_witness:
  "map_sum id spec_bounds (status example_page) = Inr True"
proof -
  obtain s where s: "status example_page = Inr s"
    using example_netflix example_player_lookup example_metadata by (rule status_fields)
  from status_bounds_from_player [OF example_netflix example_player_lookup s]
  have "spec_bounds s"
    by (simp add: example_player_def)
  with s show ?thesis by simp
qed

text \<open>C3 as stated fails: a player whose current time (5000) is beyond its duration
  (3000) gives a status outside the bounds.\<close>

theorem status_bounds_counterexample:
  "map_sum id spec_bounds (status overrun_page) = Inr False"
proof -
  obtain s where "status overrun_page = Inr s" and "duration s = getDuration overrun_player"
    and "elapsed s = getCurrentTime overrun_player"
    using overrun_netflix overrun_player_lookup overrun_metadata by (rule status_fields)
  then show ?thesis
    by (simp add: spec_bounds_def overrun_player_def)
qed

text \<open>
  C4, as amended. When a status read fails, \<open>status\<close> returns no status: the TypeError is
  raised to the caller. That happens exactly when the Netflix API is missing, when no
  player is found for the selected session, or when reading the metadata of the player's
  movie fails. The page holds no earlier status, and none is substituted.
\<close>

theorem status_failure_raised:
  "status w = Inl TypeError \<longleftrightarrow>
     (case netflix w of
        None \<Rightarrow> True
      | Some a \<Rightarrow>
          (case getVideoPlayerBySessionId a (sessionId a) of
             None \<Rightarrow> True
           | Some p \<Rightarrow> Spec2Isabelle.metadata w (getMovieId p) = Inl TypeError))"
  by (auto simp add: status_def the_player_def player_def split: option.splits sum.splits)

theorem status_failure_raised_witness:
  "netflix \<lparr>netflix = None, blocked_play = False, effects = []\<rparr> = None
   \<and> status \<lparr>netflix = None, blocked_play = False, effects = []\<rparr> = Inl TypeError"
  using status_failure_raised [of "\<lparr>netflix = None, blocked_play = False, effects = []\<rparr>"]
  by simp

text \<open>C4 as stated fails: on a page with no watch session the status read is an error,
  not a status.\<close>

theorem status_failure_counterexample: "status idle_page = Inl TypeError"
proof -
  have "getVideoPlayerBySessionId (example_api [''motion-billboard-1''] example_player)
     (sessionId (example_api [''motion-billboard-1''] example_player)) = None"
    by (simp add: idle_sessionId idle_lookup)
  with idle_netflix have "the_player idle_page = Inl TypeError"
    by (rule the_player_missing)
  then show ?thesis
    by (simp add: status_def)
qed

subsection \<open>The metadata\<close>

text \<open>
  C5. For a video of type \<^verbatim>\<open>"show"\<close> whose current video can be read, \<open>metadata\<close> returns
  a Metadata with an episode whose fields seq, title, thumbs, stills and synopsis are
  those of the current video; for a video of type \<^verbatim>\<open>"movie"\<close> it returns a Metadata with
  neither episode nor season.
\<close>

theorem metadata_episode_of_show:
  assumes "netflix w = Some a"
    and "getVideoMetadataByVideoId a videoId = Some m"
    and "read_prop (getVideo m) ''_video'' = Inr video"
  shows "(get video ''type'' = JStr ''show''
          \<and> read_prop (getCurrentVideo m) ''_video'' = Inr currentVideo
          \<and> \<not> nullish currentVideo \<longrightarrow>
            (\<exists>d. Spec2Isabelle.metadata w videoId = Inr d
               \<and> episode d = Some \<lparr>
                    seq = get currentVideo ''seq'',
                    Episode.title = get currentVideo ''title'',
                    thumbs = get currentVideo ''thumbs'',
                    stills = get currentVideo ''stills'',
                    Episode.synopsis = get currentVideo ''synopsis''\<rparr>))
       \<and> (get video ''type'' = JStr ''movie'' \<longrightarrow>
            (\<exists>d. Spec2Isabelle.metadata w videoId = Inr d \<and> episode d = None \<and> season d = None))"
proof (intro conjI impI)
  assume "get video ''type'' = JStr ''show''
          \<and> read_prop (getCurrentVideo m) ''_video'' = Inr currentVideo
          \<and> \<not> nullish currentVideo"
  then show "\<exists>d. Spec2Isabelle.metadata w videoId = Inr d
               \<and> episode d = Some \<lparr>
                    seq = get currentVideo ''seq'',
                    Episode.title = get currentVideo ''title'',
                    thumbs = get currentVideo ''thumbs'',
                    stills = get currentVideo ''stills'',
                    Episode.synopsis = get currentVideo ''synopsis''\<rparr>"
    using metadata_show [OF assms] by simp
next
  assume "get video ''type'' = JStr ''movie''"
  then show "\<exists>d. Spec2Isabelle.metadata w videoId = Inr d \<and> episode d = None \<and> season d = None"
    using metadata_other [OF assms, of "''movie''"] by simp
qed

theorem metadata_episode_of_show_witness:
  "map_sum id episode (Spec2Isabelle.metadata example_page (Num 70143836)) =
     Inr (Some \<lparr>seq = JNum (Num 3), Episode.title = JStr ''Past and Present'', thumbs = JUndefined,
       stills = JUndefined, Episode.synopsis = JUndefined\<rparr>)
   \<and> map_sum id episode (Spec2Isabelle.metadata example_page (Num 60023642)) = Inr None
   \<and> map_sum id season (Spec2Isabelle.metadata example_page (Num 60023642)) = Inr None"
proof -
  have "map_sum id episode (Spec2Isabelle.metadata example_page (Num 70143836)) =
     Inr (Some \<lparr>seq = JNum (Num 3), Episode.title = JStr ''Past and Present'', thumbs = JUndefined,
       stills = JUndefined, Episode.synopsis = JUndefined\<rparr>)"
    using metadata_episode_of_show
      [OF example_netflix example_show_lookup example_show_video,
       of "JObj [(''seq'', JNum (Num 3)), (''title'', JStr ''Past and Present'')]"]
      example_show_current
    by auto
  moreover have "map_sum id episode (Spec2Isabelle.metadata example_page (Num 60023642)) = Inr None
    \<and> map_sum id season (Spec2Isabelle.metadata example_page (Num 60023642)) = Inr None"
    using metadata_episode_of_show [OF example_netflix example_movie_lookup example_movie_video]
    by auto
  ultimately show ?thesis by simp
qed

text \<open>
  C6. For a video of type \<^verbatim>\<open>"show"\<close> whose current video can be read, the season of the
  Metadata that \<open>metadata\<close> returns is present and is the empty object, whatever
  properties the video objects of the player have.
\<close>

theorem metadata_season_empty:
  assumes "netflix w = Some a"
    and "getVideoMetadataByVideoId a videoId = Some m"
    and "read_prop (getVideo m) ''_video'' = Inr video"
    and "get video ''type'' = JStr ''show''"
    and "read_prop (getCurrentVideo m) ''_video'' = Inr currentVideo"
    and "\<not> nullish currentVideo"
  shows "\<exists>d. Spec2Isabelle.metadata w videoId = Inr d \<and> season d = Some []"
  using metadata_show [OF assms] by simp

theorem metadata_season_empty_witness:
  "get (JObj [(''type'', JStr ''show''), (''title'', JStr ''Dark''),
       (''seasons'', JArr [JObj [(''seq'', JNum (Num 1)), (''title'', JStr ''Season 1'')]])]) ''seasons''
     = JArr [JObj [(''seq'', JNum (Num 1)), (''title'', JStr ''Season 1'')]]
   \<and> map_sum id season (Spec2Isabelle.metadata example_page (Num 70143836)) = Inr (Some [])"
  using metadata_season_empty
    [OF example_netflix example_show_lookup example_show_video _ example_show_current]
  by auto

subsection \<open>The commands\<close>

text \<open>
  C7. When a player is found, \<open>seek\<close> with a position makes one call on that player: its
  \<^verbatim>\<open>seek\<close> with exactly that position. Nothing else on the page changes.
\<close>

theorem seek_passes_position:
  assumes "netflix w = Some a"
    and "getVideoPlayerBySessionId a (sessionId a) = Some p"
  shows "seek w position = Inr (w\<lparr>effects := effects w @ [Invoke p (Seek position)]\<rparr>)"
proof -
  have "the_player w = Inr p"
    using assms by (rule the_player_found)
  then show ?thesis
    by (simp add: seek_def perform_def)
qed

theorem seek_passes_position_witness:
  "seek example_page (Num 120) =
     Inr (example_page\<lparr>effects := [Invoke example_player (Seek (Num 120))]\<rparr>)"
  using seek_passes_position [OF example_netflix example_player_lookup, of "Num 120"]
  by (simp add: example_page_perform)

text \<open>
  C8. When a player is found, \<open>back\<close> calls its \<^verbatim>\<open>seek\<close> with the current time minus
  30000, and \<open>forward\<close> with the current time plus 30000, the difference and the sum being
  those of doubles: they are the exact ones whenever the exact ones are doubles. With a
  current time below 30000, \<open>back\<close> asks for a negative position.
\<close>

theorem back_forward_skip_30000:
  assumes "netflix w = Some a"
    and "getVideoPlayerBySessionId a (sessionId a) = Some p"
  shows "back w = Inr (w\<lparr>effects := effects w @
            [Invoke p (Seek (js_sub (getCurrentTime p) (Num 30000)))]\<rparr>)
    \<and> forward w = Inr (w\<lparr>effects := effects w @
            [Invoke p (Seek (js_add (getCurrentTime p) (Num 30000)))]\<rparr>)
    \<and> (getCurrentTime p = Num t \<and> is_double (t - 30000) \<longrightarrow>
          js_sub (getCurrentTime p) (Num 30000) = Num (t - 30000))
    \<and> (getCurrentTime p = Num t \<and> is_double (t + 30000) \<longrightarrow>
          js_add (getCurrentTime p) (Num 30000) = Num (t + 30000))
    \<and> (getCurrentTime p = Num t \<and> is_double t \<and> t < 30000 \<longrightarrow>
         (\<exists>position. position < 0
            \<and> back w = Inr (w\<lparr>effects := effects w @ [Invoke p (Seek (Num position))]\<rparr>)))
    \<and> (getCurrentTime p = NegZero \<longrightarrow>
          back w = Inr (w\<lparr>effects := effects w @ [Invoke p (Seek (Num (- 30000)))]\<rparr>))
    \<and> (getCurrentTime p = NegInfinity \<longrightarrow>
          back w = Inr (w\<lparr>effects := effects w @ [Invoke p (Seek NegInfinity)]\<rparr>))"
proof -
  have p: "the_player w = Inr p"
    using assms by (rule the_player_found)
  have b: "back w = Inr (w\<lparr>effects := effects w @
            [Invoke p (Seek (js_sub (getCurrentTime p) (Num 30000)))]\<rparr>)"
    using p by (simp add: back_def perform_def skip_eq)
  have f: "forward w = Inr (w\<lparr>effects := effects w @
            [Invoke p (Seek (js_add (getCurrentTime p) (Num 30000)))]\<rparr>)"
    using p by (simp add: forward_def perform_def skip_eq)
  have 1: "getCurrentTime p = Num t \<and> is_double (t - 30000) \<longrightarrow>
          js_sub (getCurrentTime p) (Num 30000) = Num (t - 30000)"
    using js_sub_30000_exact [of t] by auto
  have 2: "getCurrentTime p = Num t \<and> is_double (t + 30000) \<longrightarrow>
          js_add (getCurrentTime p) (Num 30000) = Num (t + 30000)"
    using js_add_30000_exact [of t] by auto
  have 3: "getCurrentTime p = Num t \<and> is_double t \<and> t < 30000 \<longrightarrow>
         (\<exists>position. position < 0
            \<and> back w = Inr (w\<lparr>effects := effects w @ [Invoke p (Seek (Num position))]\<rparr>))"
  proof
    assume h: "getCurrentTime p = Num t \<and> is_double t \<and> t < 30000"
    then obtain position where "position < 0"
      and "js_sub (Num t) (Num 30000) = Num position"
      using js_sub_30000_negative [of t] by blast
    with b h show "\<exists>position. position < 0
            \<and> back w = Inr (w\<lparr>effects := effects w @ [Invoke p (Seek (Num position))]\<rparr>)"
      by auto
  qed
  have 4: "getCurrentTime p = NegZero \<longrightarrow>
          back w = Inr (w\<lparr>effects := effects w @ [Invoke p (Seek (Num (- 30000)))]\<rparr>)"
    using b by (simp add: js_sub_def)
  have 5: "getCurrentTime p = NegInfinity \<longrightarrow>
          back w = Inr (w\<lparr>effects := effects w @ [Invoke p (Seek NegInfinity)]\<rparr>)"
    using b by (simp add: js_sub_def)
  from b f 1 2 3 4 5 show ?thesis by blast
qed

theorem back_forward_skip_30000_witness:
  "getCurrentTime example_player = Num 12000 \<and> is_double 12000
   \<and> back example_page =
       Inr (example_page\<lparr>effects := [Invoke example_player (Seek (Num (- 18000)))]\<rparr>)
   \<and> forward example_page =
       Inr (example_page\<lparr>effects := [Invoke example_player (Seek (Num 42000))]\<rparr>)
   \<and> getCurrentTime inexact_player = Num (fl 0.1)
   \<and> forward inexact_page =
       Inr (inexact_page\<lparr>effects :=
         [Invoke inexact_player (Seek (Num (4123182348055347 / 2 ^ 37)))]\<rparr>)"
proof -
  have t: "getCurrentTime example_player = Num 12000"
    by (simp add: example_player_def)
  have i: "getCurrentTime inexact_player = Num (fl 0.1)"
    by (simp add: inexact_player_def)
  from back_forward_skip_30000 [OF example_netflix example_player_lookup]
  have "back example_page = Inr (example_page\<lparr>effects := effects example_page @
            [Invoke example_player (Seek (js_sub (getCurrentTime example_player) (Num 30000)))]\<rparr>)"
    and "forward example_page = Inr (example_page\<lparr>effects := effects example_page @
            [Invoke example_player (Seek (js_add (getCurrentTime example_player) (Num 30000)))]\<rparr>)"
    by blast+
  then have 1: "back example_page =
       Inr (example_page\<lparr>effects := [Invoke example_player (Seek (Num (- 18000)))]\<rparr>)"
    and 2: "forward example_page =
       Inr (example_page\<lparr>effects := [Invoke example_player (Seek (Num 42000))]\<rparr>)"
    by (simp_all only: t example_back example_forward example_page_perform)
  from back_forward_skip_30000 [OF inexact_netflix inexact_player_lookup]
  have "forward inexact_page = Inr (inexact_page\<lparr>effects := effects inexact_page @
            [Invoke inexact_player (Seek (js_add (getCurrentTime inexact_player) (Num 30000)))]\<rparr>)"
    by blast
  then have 3: "forward inexact_page =
       Inr (inexact_page\<lparr>effects :=
         [Invoke inexact_player (Seek (Num (4123182348055347 / 2 ^ 37)))]\<rparr>)"
    by (simp only: i inexact_forward inexact_page_perform)
  from t double_12000 1 2 i 3 show ?thesis by simp
qed

text \<open>
  C9. When the blocked-play button is on the page, \<open>play\<close> clicks it and calls nothing on
  the player (it does not even look for one). When the button is absent and a player is
  found, \<open>play\<close> calls the player's \<^verbatim>\<open>play\<close>. A \<open>play\<close> that called the player's
  \<^verbatim>\<open>play\<close> found no button.
\<close>

theorem play_clicks_blocked_button:
  "(blocked_play w \<longrightarrow> play w = Inr (w\<lparr>effects := effects w @ [Click]\<rparr>))
   \<and> (\<not> blocked_play w \<and> netflix w = Some a
        \<and> getVideoPlayerBySessionId a (sessionId a) = Some p \<longrightarrow>
          play w = Inr (w\<lparr>effects := effects w @ [Invoke p Play]\<rparr>))
   \<and> (play w = Inr w' \<and> effects w' = effects w @ [Invoke q Play] \<longrightarrow> \<not> blocked_play w)"
proof (intro conjI impI)
  assume "blocked_play w"
  then show "play w = Inr (w\<lparr>effects := effects w @ [Click]\<rparr>)"
    by (simp add: play_def perform_def)
next
  assume h: "\<not> blocked_play w \<and> netflix w = Some a
        \<and> getVideoPlayerBySessionId a (sessionId a) = Some p"
  then have "the_player w = Inr p"
    by (simp add: the_player_found)
  with h show "play w = Inr (w\<lparr>effects := effects w @ [Invoke p Play]\<rparr>)"
    by (simp add: play_def perform_def)
next
  assume h: "play w = Inr w' \<and> effects w' = effects w @ [Invoke q Play]"
  show "\<not> blocked_play w"
  proof
    assume "blocked_play w"
    then have "play w = Inr (w\<lparr>effects := effects w @ [Click]\<rparr>)"
      by (simp add: play_def perform_def)
    with h have "w' = w\<lparr>effects := effects w @ [Click]\<rparr>"
      by simp
    then have "effects w' = effects w @ [Click]"
      by simp
    with h show False
      by simp
  qed
qed

theorem play_clicks_blocked_button_witness:
  "play blocked_page = Inr (blocked_page\<lparr>effects := [Click]\<rparr>)
   \<and> play example_page = Inr (example_page\<lparr>effects := [Invoke example_player Play]\<rparr>)"
proof -
  let ?a = "example_api [''motion-billboard-1'', ''watch-7'', ''watch-9''] example_player"
  have "blocked_play blocked_page"
    by (simp add: blocked_page_def)
  with play_clicks_blocked_button [of blocked_page ?a example_player blocked_page example_player]
  have "play blocked_page = Inr (blocked_page\<lparr>effects := effects blocked_page @ [Click]\<rparr>)"
    by blast
  then have b: "play blocked_page = Inr (blocked_page\<lparr>effects := [Click]\<rparr>)"
    by (simp add: blocked_page_def)
  have "\<not> blocked_play example_page"
    by (simp add: example_page_def)
  with play_clicks_blocked_button [of example_page ?a example_player example_page example_player]
    example_netflix example_player_lookup
  have "play example_page =
      Inr (example_page\<lparr>effects := effects example_page @ [Invoke example_player Play]\<rparr>)"
    by blast
  then have "play example_page = Inr (example_page\<lparr>effects := [Invoke example_player Play]\<rparr>)"
    by (simp only: example_page_perform)
  with b show ?thesis by simp
qed

text \<open>
  C10, as amended. \<open>player\<close> looks up the first session id, in list order, that starts
  with \<^verbatim>\<open>watch-\<close>; when no session id does, the indexing gives \<^verbatim>\<open>undefined\<close> and
  \<^verbatim>\<open>undefined\<close> is what the lookup is called with. If that lookup finds no player,
  \<open>back\<close>, \<open>forward\<close>, \<open>pause\<close>, \<open>seek\<close>, \<open>volume\<close> and \<open>status\<close> raise a TypeError, and so
  does \<open>play\<close> unless the blocked-play button is on the page: then \<open>play\<close> clicks the
  button and succeeds.
\<close>

theorem player_first_watch_session:
  assumes "netflix w = Some a"
  shows "player w = Inr (getVideoPlayerBySessionId a (sessionId a))
    \<and> (sessionId a = Some s \<longleftrightarrow>
         (\<exists>pre post. getAllPlayerSessionIds a = pre @ s # post \<and> startsWith s ''watch-''
            \<and> (\<forall>t\<in>set pre. \<not> startsWith t ''watch-'')))
    \<and> (sessionId a = None \<longleftrightarrow>
         (\<forall>t\<in>set (getAllPlayerSessionIds a). \<not> startsWith t ''watch-''))
    \<and> (sessionId a = None \<and> getVideoPlayerBySessionId a None = None \<longrightarrow>
         back w = Inl TypeError \<and> forward w = Inl TypeError \<and> pause w = Inl TypeError
         \<and> seek w position = Inl TypeError \<and> Spec2Isabelle.volume w vol = Inl TypeError
         \<and> status w = Inl TypeError
         \<and> play w = (if blocked_play w then Inr (w\<lparr>effects := effects w @ [Click]\<rparr>)
                     else Inl TypeError))"
proof -
  have 1: "player w = Inr (getVideoPlayerBySessionId a (sessionId a))"
    using assms by (simp add: player_def)
  have 4: "back w = Inl TypeError \<and> forward w = Inl TypeError \<and> pause w = Inl TypeError
         \<and> seek w position = Inl TypeError \<and> Spec2Isabelle.volume w vol = Inl TypeError
         \<and> status w = Inl TypeError
         \<and> play w = (if blocked_play w then Inr (w\<lparr>effects := effects w @ [Click]\<rparr>)
                     else Inl TypeError)"
    if "sessionId a = None \<and> getVideoPlayerBySessionId a None = None"
  proof -
    have "getVideoPlayerBySessionId a (sessionId a) = None"
      using that by simp
    with assms have "the_player w = Inl TypeError"
      by (rule the_player_missing)
    then show ?thesis
      by (simp add: back_def forward_def pause_def seek_def volume_def status_def play_def
          perform_def)
  qed
  from 1 4 show ?thesis
    using sessionId_Some_iff [of a s] sessionId_None_iff [of a] by blast
qed

theorem player_first_watch_session_witness:
  "sessionId (example_api [''motion-billboard-1'', ''watch-7'', ''watch-9''] example_player)
     = Some ''watch-7''
   \<and> player example_page = Inr (Some example_player)
   \<and> player idle_page = Inr None
   \<and> back idle_page = Inl TypeError \<and> forward idle_page = Inl TypeError
   \<and> pause idle_page = Inl TypeError \<and> seek idle_page (Num 120) = Inl TypeError
   \<and> Spec2Isabelle.volume idle_page (Num 50) = Inl TypeError \<and> status idle_page = Inl TypeError
   \<and> play idle_page = Inl TypeError"
proof -
  let ?a = "example_api [''motion-billboard-1'', ''watch-7'', ''watch-9''] example_player"
  have ids: "getAllPlayerSessionIds ?a = [''motion-billboard-1''] @ ''watch-7'' # [''watch-9'']"
    by (simp add: example_api_def)
  have "startsWith ''watch-7'' ''watch-''"
    and "\<forall>t\<in>set [''motion-billboard-1'']. \<not> startsWith t ''watch-''"
    by (simp_all add: startsWith_def)
  with ids have "\<exists>pre post. getAllPlayerSessionIds ?a = pre @ ''watch-7'' # post
      \<and> startsWith ''watch-7'' ''watch-'' \<and> (\<forall>t\<in>set pre. \<not> startsWith t ''watch-'')"
    by blast
  with player_first_watch_session [OF example_netflix, of "''watch-7''"]
  have s: "sessionId ?a = Some ''watch-7''"
    and p: "player example_page = Inr (getVideoPlayerBySessionId ?a (sessionId ?a))"
    by blast+
  have e: "player example_page = Inr (Some example_player)"
    using p by (simp add: s example_lookup)
  let ?b = "example_api [''motion-billboard-1''] example_player"
  have "\<forall>t\<in>set (getAllPlayerSessionIds ?b). \<not> startsWith t ''watch-''"
    by (simp add: example_api_def startsWith_def)
  with player_first_watch_session [OF idle_netflix, of _ "Num 120" "Num 50"] idle_lookup [of _ example_player]
  have "sessionId ?b = None" and "player idle_page = Inr (getVideoPlayerBySessionId ?b (sessionId ?b))"
    and "back idle_page = Inl TypeError \<and> forward idle_page = Inl TypeError
      \<and> pause idle_page = Inl TypeError \<and> seek idle_page (Num 120) = Inl TypeError
      \<and> Spec2Isabelle.volume idle_page (Num 50) = Inl TypeError \<and> status idle_page = Inl TypeError
      \<and> play idle_page = (if blocked_play idle_page
          then Inr (idle_page\<lparr>effects := effects idle_page @ [Click]\<rparr>) else Inl TypeError)"
    by blast+
  then have "player idle_page = Inr None
      \<and> back idle_page = Inl TypeError \<and> forward idle_page = Inl TypeError
      \<and> pause idle_page = Inl TypeError \<and> seek idle_page (Num 120) = Inl TypeError
      \<and> Spec2Isabelle.volume idle_page (Num 50) = Inl TypeError \<and> status idle_page = Inl TypeError
      \<and> play idle_page = Inl TypeError"
    by (simp add: idle_lookup) (simp add: idle_page_def)
  with s e show ?thesis by simp
qed

text \<open>C10 as stated fails: with no watch session and no player, \<open>play\<close> still works
  when the blocked-play button is on the page.\<close>

theorem no_watch_session_counterexample:
  "sessionId (example_api [''motion-billboard-1''] example_player) = None
   \<and> player blocked_page = Inr None
   \<and> play blocked_page = Inr (blocked_page\<lparr>effects := [Click]\<rparr>)"
  by (simp add: idle_sessionId player_def play_def perform_def blocked_page_def idle_lookup)

end
